theory Spec2Isabelle
  imports Complex_Main "HOL-Library.Word"
begin

section \<open>Machine numbers\<close>

subsection \<open>Integers\<close>

text \<open>
  The program is compiled for a 64-bit platform: \<^verbatim>\<open>int\<close> has 32 bits and is read as a
  signed number (\<open>sint\<close>), \<^verbatim>\<open>size_t\<close> has 64 bits and is read as an unsigned number
  (\<open>unat\<close>). The two conversions below are the implicit conversions of C++: narrowing a
  \<^verbatim>\<open>size_t\<close> to \<^verbatim>\<open>int\<close> keeps the low 32 bits, widening an \<^verbatim>\<open>int\<close> to \<^verbatim>\<open>size_t\<close>
  extends the sign.
\<close>

type_synonym c_int = "32 word"
type_synonym size_t = "64 word"

definition int_of_size_t :: "size_t \<Rightarrow> c_int" where
  "int_of_size_t n = ucast n"

definition size_t_of_int :: "c_int \<Rightarrow> size_t" where
  "size_t_of_int i = scast i"

text \<open>\<^verbatim>\<open>std::vector::size()\<close>. A vector that exists in memory has fewer than \<open>2 ^ 64\<close>
  elements, so the conversion loses nothing on it.\<close>

definition vector_size :: "'a list \<Rightarrow> size_t" where
  "vector_size v = word_of_nat (length v)"

subsection \<open>Doubles\<close>

text \<open>
  A \<^verbatim>\<open>double\<close> is an IEEE 754 binary64 number. \<open>Finite s e f\<close> has the sign bit \<open>s\<close>, the
  biased exponent field \<open>e\<close> (\<open>0 \<le> e \<le> 2046\<close>) and the fraction field \<open>f\<close>
  (\<open>0 \<le> f < 2 ^ 52\<close>); all not-a-number patterns are one value \<open>NaN\<close>. Arithmetic rounds to
  nearest, ties to even, which is the mode a C++ program runs in unless it changes it
  (this program does not).
\<close>

datatype double = NaN | Infinity bool | Finite bool int int

text \<open>The number of binary digits of a positive integer.\<close>

function bit_length :: "int \<Rightarrow> int" where
  "bit_length n = (if n \<le> 0 then 0 else 1 + bit_length (n div 2))"
  by pat_completeness auto
termination
  by (relation "measure nat") auto

declare bit_length.simps [simp del]

text \<open>A finite double is \<open>m * 2 ^ x\<close> for the pair \<open>(m, x)\<close> that \<open>decode\<close> returns
  (subnormal when the exponent field is zero).\<close>

definition decode :: "int \<Rightarrow> int \<Rightarrow> int \<times> int" where
  "decode e f = (if e = 0 then (f, - 1074) else (2 ^ 52 + f, e - 1075))"

text \<open>\<open>round_shift m k\<close> is \<open>m / 2 ^ k\<close> rounded to the nearest integer, a tie going to the
  even one.\<close>

definition round_shift :: "int \<Rightarrow> nat \<Rightarrow> int" where
  "round_shift m k =
     (let q = m div 2 ^ k; r = m mod 2 ^ k
      in if 2 ^ k < 2 * r \<or> (2 * r = 2 ^ k \<and> odd q) then q + 1 else q)"

text \<open>\<open>fl s m x\<close> is the double nearest to \<open>(-1) ^ s * m * 2 ^ x\<close> for \<open>m \<ge> 0\<close>: the
  significand is cut to 53 bits (fewer in the subnormal range), and a result beyond the
  largest finite double is an infinity.\<close>

definition fl :: "bool \<Rightarrow> int \<Rightarrow> int \<Rightarrow> double" where
  "fl s m x =
     (let q = max (bit_length m + x - 53) (- 1074);
          m1 = (if q \<le> x then m * 2 ^ nat (x - q) else round_shift m (nat (q - x)));
          m2 = (if m1 = 2 ^ 53 then 2 ^ 52 else m1);
          q2 = (if m1 = 2 ^ 53 then q + 1 else q)
      in if m2 < 2 ^ 52 then Finite s 0 m2
         else if 971 < q2 then Infinity s
         else Finite s (q2 + 1075) (m2 - 2 ^ 52))"

text \<open>The operator \<^verbatim>\<open>*\<close> on doubles.\<close>

fun dmul :: "double \<Rightarrow> double \<Rightarrow> double" where
  "dmul NaN y = NaN"
| "dmul x NaN = NaN"
| "dmul (Infinity s) (Infinity t) = Infinity (s \<noteq> t)"
| "dmul (Infinity s) (Finite t e f) = (if e = 0 \<and> f = 0 then NaN else Infinity (s \<noteq> t))"
| "dmul (Finite s e f) (Infinity t) = (if e = 0 \<and> f = 0 then NaN else Infinity (s \<noteq> t))"
| "dmul (Finite s e f) (Finite t e' f') =
     (case decode e f of (m, x) \<Rightarrow> case decode e' f' of (m', x') \<Rightarrow>
        fl (s \<noteq> t) (m * m') (x + x'))"

text \<open>The operator \<^verbatim>\<open>+\<close> on doubles. An exact sum of zero is \<open>+0\<close> unless both operands
  are \<open>-0\<close>.\<close>

fun dadd :: "double \<Rightarrow> double \<Rightarrow> double" where
  "dadd NaN y = NaN"
| "dadd x NaN = NaN"
| "dadd (Infinity s) (Infinity t) = (if s = t then Infinity s else NaN)"
| "dadd (Infinity s) (Finite t e f) = Infinity s"
| "dadd (Finite s e f) (Infinity t) = Infinity t"
| "dadd (Finite s e f) (Finite t e' f') =
     (case decode e f of (m, x) \<Rightarrow> case decode e' f' of (m', x') \<Rightarrow>
        let x0 = min x x';
            a = (if s then - (m * 2 ^ nat (x - x0)) else m * 2 ^ nat (x - x0));
            b = (if t then - (m' * 2 ^ nat (x' - x0)) else m' * 2 ^ nat (x' - x0));
            c = a + b
        in if c = 0 then Finite (s \<and> t) 0 0 else fl (c < 0) \<bar>c\<bar> x0)"

text \<open>The conversion of an integer to \<^verbatim>\<open>double\<close> (exact for every 32-bit \<^verbatim>\<open>int\<close>).\<close>

definition double_of_int :: "int \<Rightarrow> double" where
  "double_of_int i = fl (i < 0) \<bar>i\<bar> 0"

text \<open>A decimal literal of the source text: \<open>double_literal p q\<close> is the double nearest to
  the fraction \<open>p / q\<close> (\<open>p \<ge> 0\<close>, \<open>q > 0\<close>), so \<^verbatim>\<open>0.1\<close> is \<open>double_literal 1 10\<close>. The
  quotient is computed to more than 64 bits, with one more bit that records whether
  anything was cut off, and then rounded once.\<close>

definition double_literal :: "int \<Rightarrow> int \<Rightarrow> double" where
  "double_literal p q =
     (let k = nat (64 + bit_length q);
          n = (p * 2 ^ k) div q;
          sticky = (if (p * 2 ^ k) mod q = 0 then 0 else 1)
      in fl False (2 * n + sticky) (- int (k + 1)))"

section \<open>The execution context\<close>

text \<open>
  What can go wrong in this program is undefined behaviour of C++: a work-item that indexes
  the accessor outside the buffer, and a call through a null handle.
\<close>

datatype error = OutOfBounds | NullHandle

text \<open>
  Modelled from the spec: the executor (\<^verbatim>\<open>sycl::queue\<close>, \<^verbatim>\<open>sycl::handler\<close>,
  \<^verbatim>\<open>sycl::buffer\<close> and its accessor), which is a library outside the sources. The design
  says that the executor invokes the kernel on every index of the range independently,
  with no defined order between the indices, and that the call blocks until every index
  has been processed. A queue is therefore the number of jobs it has run and, for its
  \<open>k\<close>-th job over a range of \<open>n\<close> indices, the order in which it happens to run the
  \<open>n\<close> work-items (which stands for any number of parallel workers: the work-items share
  no element, so every parallel run is one of these orders). A device fault is not a
  behaviour of the program's own code and has no place in the queue.
\<close>

record queue =
  jobs_run :: nat
  item_order :: "nat \<Rightarrow> nat \<Rightarrow> nat list"

text \<open>The executor's contract: every index of the range is run exactly once.\<close>

definition runs_each_item_once :: "queue \<Rightarrow> bool" where
  "runs_each_item_once q \<longleftrightarrow>
     (\<forall>k n. distinct (item_order q k n) \<and> set (item_order q k n) = {..<n})"

text \<open>Work-items run one after the other in the given order; the first failure ends the
  job.\<close>

fun run_items :: "(nat \<Rightarrow> 'b \<Rightarrow> error + 'b) \<Rightarrow> nat list \<Rightarrow> 'b \<Rightarrow> error + 'b" where
  "run_items work_item [] b = Inr b"
| "run_items work_item (i # ids) b =
     (case work_item i b of Inl e \<Rightarrow> Inl e | Inr b' \<Rightarrow> run_items work_item ids b')"

text \<open>\<^verbatim>\<open>queue.submit([&](handler& h){ h.parallel_for(range<1>(n), work_item); }).wait_and_throw()\<close>
  on the buffer \<open>b\<close>.\<close>

definition submit_parallel_for ::
  "queue \<Rightarrow> size_t \<Rightarrow> (nat \<Rightarrow> 'b \<Rightarrow> error + 'b) \<Rightarrow> 'b \<Rightarrow> error + (queue \<times> 'b)" where
  "submit_parallel_for q n work_item b =
     (case run_items work_item (item_order q (jobs_run q) (unat n)) b of
        Inl e \<Rightarrow> Inl e
      | Inr b' \<Rightarrow> Inr (q\<lparr>jobs_run := Suc (jobs_run q)\<rparr>, b'))"

section \<open>The reactions\<close>

subsection \<open>The base type\<close>

text \<open>\<^verbatim>\<open>struct Reaction { virtual inline void react(sycl::queue &, std::vector<double> &) {} };\<close>
  The body is empty: the object, the queue and the vector come back as they were.\<close>

definition Reaction_react :: "'r \<Rightarrow> queue \<Rightarrow> double list \<Rightarrow> error + ('r \<times> queue \<times> double list)" where
  "Reaction_react this q io = Inr (this, q, io)"

subsection \<open>The templated base\<close>

text \<open>The kernel of \<^verbatim>\<open>ReactionBase::react\<close>, \<^verbatim>\<open>[=] (auto id) { device_type.apply(a_io[id]); }\<close>:
  it reads and writes the element at its index \<open>idx\<close> and no other. Indexing the accessor outside
  the buffer is undefined.\<close>

definition react_kernel :: "('d \<Rightarrow> double \<Rightarrow> double) \<Rightarrow> 'd \<Rightarrow> nat \<Rightarrow> double list \<Rightarrow> error + double list" where
  "react_kernel apply device_type idx a_io =
     (if idx < length a_io then Inr (a_io[idx := apply device_type (a_io ! idx)])
      else Inl OutOfBounds)"

text \<open>
  \<^verbatim>\<open>template <typename DERIVED_REACTION> struct ReactionBase : Reaction\<close>. The template
  parameter gives \<open>get_device_data\<close> and, through the device type it returns, \<open>apply\<close>.
  The range of the job is \<^verbatim>\<open>sycl::range<1>(N)\<close> with \<^verbatim>\<open>const int N = io.size()\<close>, while the
  buffer \<open>b_io\<close> spans all \<^verbatim>\<open>io.size()\<close> elements of the vector and is written back when it
  goes out of scope.
\<close>

definition ReactionBase_react ::
  "('r \<Rightarrow> 'd) \<Rightarrow> ('d \<Rightarrow> double \<Rightarrow> double) \<Rightarrow> 'r \<Rightarrow> queue \<Rightarrow> double list
     \<Rightarrow> error + ('r \<times> queue \<times> double list)" where
  "ReactionBase_react get_device_data apply this q io =
     (let underlying = this;
          device_type = get_device_data underlying;
          N = int_of_size_t (vector_size io);
          b_io = io
      in case submit_parallel_for q (size_t_of_int N) (react_kernel apply device_type) b_io of
           Inl e \<Rightarrow> Inl e
         | Inr (q', b_io') \<Rightarrow> Inr (this, q', b_io'))"

subsection \<open>Reaction A: multiply\<close>

text \<open>The fields \<^verbatim>\<open>a\<close>, \<^verbatim>\<open>b\<close> and \<^verbatim>\<open>data\<close> of the source carry the name of their struct
  here, because a record field is a constant of the whole theory.\<close>

record DeviceReactionA =
  DeviceReactionA_a :: double

text \<open>\<^verbatim>\<open>d *= a;\<close>\<close>

definition DeviceReactionA_apply :: "DeviceReactionA \<Rightarrow> double \<Rightarrow> double" where
  "DeviceReactionA_apply this d = dmul d (DeviceReactionA_a this)"

record ReactionA =
  ReactionA_data :: DeviceReactionA

definition ReactionA_get_device_data :: "ReactionA \<Rightarrow> DeviceReactionA" where
  "ReactionA_get_device_data this = ReactionA_data this"

text \<open>The constructor \<^verbatim>\<open>ReactionA(const double a)\<close>.\<close>

definition ReactionA_new :: "double \<Rightarrow> ReactionA" where
  "ReactionA_new a = \<lparr>ReactionA_data = \<lparr>DeviceReactionA_a = a\<rparr>\<rparr>"

definition ReactionA_react ::
  "ReactionA \<Rightarrow> queue \<Rightarrow> double list \<Rightarrow> error + (ReactionA \<times> queue \<times> double list)" where
  "ReactionA_react = ReactionBase_react ReactionA_get_device_data DeviceReactionA_apply"

subsection \<open>Reaction B: add\<close>

record DeviceReactionB =
  DeviceReactionB_b :: c_int

text \<open>\<^verbatim>\<open>d += b;\<close> The \<^verbatim>\<open>int\<close> is converted to \<^verbatim>\<open>double\<close> first.\<close>

definition DeviceReactionB_apply :: "DeviceReactionB \<Rightarrow> double \<Rightarrow> double" where
  "DeviceReactionB_apply this d = dadd d (double_of_int (sint (DeviceReactionB_b this)))"

record ReactionB =
  ReactionB_data :: DeviceReactionB

definition ReactionB_get_device_data :: "ReactionB \<Rightarrow> DeviceReactionB" where
  "ReactionB_get_device_data this = ReactionB_data this"

text \<open>The constructor \<^verbatim>\<open>ReactionB(const int b)\<close>.\<close>

definition ReactionB_new :: "c_int \<Rightarrow> ReactionB" where
  "ReactionB_new b = \<lparr>ReactionB_data = \<lparr>DeviceReactionB_b = b\<rparr>\<rparr>"

definition ReactionB_react ::
  "ReactionB \<Rightarrow> queue \<Rightarrow> double list \<Rightarrow> error + (ReactionB \<times> queue \<times> double list)" where
  "ReactionB_react = ReactionBase_react ReactionB_get_device_data DeviceReactionB_apply"

section \<open>Dynamic dispatch\<close>

text \<open>An object that a \<^verbatim>\<open>Reaction\<close> pointer or reference can refer to, by its dynamic type:
  a plain \<^verbatim>\<open>Reaction\<close>, a \<^verbatim>\<open>ReactionA\<close> or a \<^verbatim>\<open>ReactionB\<close>.\<close>

datatype Reaction = Plain_Reaction | Is_ReactionA ReactionA | Is_ReactionB ReactionB

text \<open>The class hierarchy of the source: \<^verbatim>\<open>struct ReactionBase : Reaction\<close>,
  \<^verbatim>\<open>struct ReactionA : ReactionBase<ReactionA>\<close>, \<^verbatim>\<open>struct ReactionB : ReactionBase<ReactionB>\<close>
  (a \<^verbatim>\<open>struct\<close> inherits publicly).\<close>

datatype class_name =
  Class_Reaction
| Class_ReactionBase_ReactionA
| Class_ReactionBase_ReactionB
| Class_ReactionA
| Class_ReactionB

fun base_class :: "class_name \<Rightarrow> class_name option" where
  "base_class Class_Reaction = None"
| "base_class Class_ReactionBase_ReactionA = Some Class_Reaction"
| "base_class Class_ReactionBase_ReactionB = Some Class_Reaction"
| "base_class Class_ReactionA = Some Class_ReactionBase_ReactionA"
| "base_class Class_ReactionB = Some Class_ReactionBase_ReactionB"

fun depth :: "class_name \<Rightarrow> nat" where
  "depth Class_Reaction = 0"
| "depth Class_ReactionBase_ReactionA = 1"
| "depth Class_ReactionBase_ReactionB = 1"
| "depth Class_ReactionA = 2"
| "depth Class_ReactionB = 2"

function derives_from :: "class_name \<Rightarrow> class_name \<Rightarrow> bool" where
  "derives_from c target =
     (c = target \<or> (case base_class c of None \<Rightarrow> False | Some b \<Rightarrow> derives_from b target))"
  by pat_completeness auto
termination
  by (relation "measure (\<lambda>(c, target). depth c)") (auto elim: base_class.elims)

declare derives_from.simps [simp del]

fun dynamic_type :: "Reaction \<Rightarrow> class_name" where
  "dynamic_type Plain_Reaction = Class_Reaction"
| "dynamic_type (Is_ReactionA r) = Class_ReactionA"
| "dynamic_type (Is_ReactionB r) = Class_ReactionB"

text \<open>A call of the virtual function \<^verbatim>\<open>react\<close> runs the final overrider of the dynamic type:
  the empty body for a plain \<^verbatim>\<open>Reaction\<close>, the body of \<^verbatim>\<open>ReactionBase\<close> for the two
  variants.\<close>

fun virtual_react :: "Reaction \<Rightarrow> queue \<Rightarrow> double list \<Rightarrow> error + (Reaction \<times> queue \<times> double list)" where
  "virtual_react Plain_Reaction q io = Reaction_react Plain_Reaction q io"
| "virtual_react (Is_ReactionA r) q io =
     (case ReactionA_react r q io of
        Inl e \<Rightarrow> Inl e
      | Inr (r', q', io') \<Rightarrow> Inr (Is_ReactionA r', q', io'))"
| "virtual_react (Is_ReactionB r) q io =
     (case ReactionB_react r q io of
        Inl e \<Rightarrow> Inl e
      | Inr (r', q', io') \<Rightarrow> Inr (Is_ReactionB r', q', io'))"

subsection \<open>Handles\<close>

text \<open>A \<^verbatim>\<open>std::shared_ptr<Reaction>\<close> is empty (\<open>None\<close>) or refers to an object. Nothing
  proved below depends on two handles sharing one object, and no reaction is ever written
  to, so the handle holds the object itself.\<close>

type_synonym Reaction_ptr = "Reaction option"

definition make_shared :: "('args \<Rightarrow> Reaction) \<Rightarrow> 'args \<Rightarrow> Reaction_ptr" where
  "make_shared new args = Some (new args)"

text \<open>\<^verbatim>\<open>std::dynamic_pointer_cast<Reaction>(r)\<close>: the same object when its class is
  \<^verbatim>\<open>Reaction\<close> or derives from it, an empty handle otherwise.\<close>

definition dynamic_pointer_cast_Reaction :: "Reaction_ptr \<Rightarrow> Reaction_ptr" where
  "dynamic_pointer_cast_Reaction r =
     (case r of
        None \<Rightarrow> None
      | Some obj \<Rightarrow> if derives_from (dynamic_type obj) Class_Reaction then Some obj else None)"

text \<open>\<^verbatim>\<open>template<typename REACTION, typename... ARGS> make_reaction(ARGS... args)\<close>; the
  template parameter is the constructor \<open>new\<close>.\<close>

definition make_reaction :: "('args \<Rightarrow> Reaction) \<Rightarrow> 'args \<Rightarrow> Reaction_ptr" where
  "make_reaction new args = (let r = make_shared new args in dynamic_pointer_cast_Reaction r)"

text \<open>\<^verbatim>\<open>rx->react(queue, d)\<close>.\<close>

definition ptr_react ::
  "Reaction_ptr \<Rightarrow> queue \<Rightarrow> double list \<Rightarrow> error + (Reaction_ptr \<times> queue \<times> double list)" where
  "ptr_react rx q d =
     (case rx of
        None \<Rightarrow> Inl NullHandle
      | Some obj \<Rightarrow>
          (case virtual_react obj q d of
             Inl e \<Rightarrow> Inl e
           | Inr (obj', q', d') \<Rightarrow> Inr (Some obj', q', d')))"

text \<open>What a call leaves in the vector, if it returns.\<close>

fun final_buffer :: "error + ('r \<times> queue \<times> double list) \<Rightarrow> double list option" where
  "final_buffer (Inl e) = None"
| "final_buffer (Inr (r, q, io)) = Some io"

section \<open>The driver\<close>

text \<open>\<^verbatim>\<open>std::vector<double> d(n); std::iota(d.begin(), d.end(), 0);\<close> The running value is
  an \<^verbatim>\<open>int\<close> that is converted on each store.\<close>

definition iota :: "nat \<Rightarrow> double list" where
  "iota n = map (\<lambda>i. double_of_int (int i)) [0..<n]"

text \<open>
  \<^verbatim>\<open>main\<close>, with the standard output as the list of the vectors that \<^verbatim>\<open>lambda_print\<close>
  printed (the values, not their decimal rendering): the start vector, the vector after each
  of the two direct calls, and the vector after each of the two calls through a handle.
\<close>

definition main :: "queue \<Rightarrow> error + double list list" where
  "main queue0 =
     (let d0 = iota 32;
          a = ReactionA_new (double_literal 1 10);
          b = ReactionB_new 2
      in case ReactionA_react a queue0 d0 of Inl e \<Rightarrow> Inl e | Inr (a', queue1, d1) \<Rightarrow>
         case ReactionB_react b queue1 d1 of Inl e \<Rightarrow> Inl e | Inr (b', queue2, d2) \<Rightarrow>
         let d3 = iota 32;
             rx0 = make_reaction (\<lambda>x. Is_ReactionA (ReactionA_new x)) (double_literal 1 10);
             rx1 = make_reaction (\<lambda>x. Is_ReactionB (ReactionB_new x)) 2
         in case ptr_react rx0 queue2 d3 of Inl e \<Rightarrow> Inl e | Inr (rx0', queue3, d4) \<Rightarrow>
            case ptr_react rx1 queue3 d4 of Inl e \<Rightarrow> Inl e | Inr (rx1', queue4, d5) \<Rightarrow>
            Inr [d0, d1, d2, d4, d5])"

section \<open>Notions used in the statements\<close>

text \<open>The number of work-items that \<open>ReactionBase_react\<close> asks the executor to run for a
  vector: its size, narrowed to \<^verbatim>\<open>int\<close> and widened again.\<close>

definition job_range :: "'a list \<Rightarrow> nat" where
  "job_range io = unat (size_t_of_int (int_of_size_t (vector_size io)))"

text \<open>Two executors that keep the contract: a fresh queue that runs the work-items of
  every job in ascending order, and one that runs them in descending order.\<close>

definition in_order_queue :: queue where
  "in_order_queue = \<lparr>jobs_run = 0, item_order = (\<lambda>k n. [0..<n])\<rparr>"

definition reverse_order_queue :: queue where
  "reverse_order_queue = \<lparr>jobs_run = 0, item_order = (\<lambda>k n. rev [0..<n])\<rparr>"

text \<open>The next double above a given one (one unit in the last place).\<close>

definition next_up :: "double \<Rightarrow> double" where
  "next_up x =
     (case x of
        Finite False e f \<Rightarrow>
          if f + 1 < 2 ^ 52 then Finite False e (f + 1)
          else if e < 2046 then Finite False (e + 1) 0
          else Infinity False
      | Finite True e f \<Rightarrow>
          if e = 0 \<and> f = 0 then Finite False 0 1
          else if 0 < f then Finite True e (f - 1)
          else Finite True (e - 1) (2 ^ 52 - 1)
      | Infinity True \<Rightarrow> Finite True 2046 (2 ^ 52 - 1)
      | _ \<Rightarrow> x)"

text \<open>The vectors that the design document writes as \<open>[0.0, 0.1, 0.2, ..., 3.1]\<close> and
  \<open>[2.0, 2.1, 2.2, ..., 5.1]\<close>: \<open>spec_tenths p n\<close> holds, at index \<open>i < n\<close>, the double
  that the decimal literal for \<open>(p + i) / 10\<close> denotes. \<open>spec_tenths_except p n up\<close> is the
  same vector with the next double above at the indices listed in \<open>up\<close>.\<close>

definition spec_tenths :: "int \<Rightarrow> nat \<Rightarrow> double list" where
  "spec_tenths p n = map (\<lambda>i. double_literal (p + int i) 10) [0..<n]"

definition spec_tenths_except :: "int \<Rightarrow> nat \<Rightarrow> nat list \<Rightarrow> double list" where
  "spec_tenths_except p n up =
     map (\<lambda>i. if i \<in> set up then next_up (double_literal (p + int i) 10)
              else double_literal (p + int i) 10) [0..<n]"

section \<open>The executor's job, whatever the order of the work-items\<close>

lemma run_items_in_range:
  "distinct ids \<Longrightarrow> \<forall>i\<in>set ids. i < length b \<Longrightarrow>
   run_items (react_kernel ap dev) ids b =
     Inr (map (\<lambda>i. if i \<in> set ids then ap dev (b ! i) else b ! i) [0..<length b])"
proof (induction ids arbitrary: b)
  case Nil
  then show ?case by (simp add: map_nth)
next
  case (Cons i ids)
  let ?b = "b[i := ap dev (b ! i)]"
  from Cons.prems have i: "i < length b" "i \<notin> set ids" "distinct ids"
    and rest: "\<forall>j\<in>set ids. j < length ?b" by auto
  have "run_items (react_kernel ap dev) (i # ids) b = run_items (react_kernel ap dev) ids ?b"
    using i by (simp add: react_kernel_def)
  also have "\<dots> = Inr (map (\<lambda>j. if j \<in> set ids then ap dev (?b ! j) else ?b ! j) [0..<length ?b])"
    using Cons.IH [OF i(3) rest] .
  also have "map (\<lambda>j. if j \<in> set ids then ap dev (?b ! j) else ?b ! j) [0..<length ?b]
      = map (\<lambda>j. if j \<in> set (i # ids) then ap dev (b ! j) else b ! j) [0..<length b]"
    using i by (auto simp: nth_list_update)
  finally show ?case .
qed

lemma run_items_out_of_range:
  "\<exists>i\<in>set ids. length b \<le> i \<Longrightarrow> run_items (react_kernel ap dev) ids b = Inl OutOfBounds"
proof (induction ids arbitrary: b)
  case Nil
  then show ?case by simp
next
  case (Cons i ids)
  show ?case
  proof (cases "i < length b")
    case False
    then show ?thesis by (simp add: react_kernel_def)
  next
    case True
    with Cons.prems have "\<exists>j\<in>set ids. length (b[i := ap dev (b ! i)]) \<le> j" by auto
    from Cons.IH [OF this] True show ?thesis by (simp add: react_kernel_def)
  qed
qed

lemma map_below_take_drop:
  "n \<le> length b \<Longrightarrow>
   map (\<lambda>i. if i < n then f (b ! i) else b ! i) [0..<length b] = map f (take n b) @ drop n b"
  by (rule nth_equalityI) (auto simp: nth_append)

lemma run_items_permutation:
  assumes "distinct ids" "set ids = {..<n}"
  shows "run_items (react_kernel ap dev) ids b =
           (if n \<le> length b then Inr (map (ap dev) (take n b) @ drop n b) else Inl OutOfBounds)"
proof (cases "n \<le> length b")
  case True
  with assms have "\<forall>i\<in>set ids. i < length b" by auto
  from run_items_in_range [OF assms(1) this, of ap dev] True assms(2) show ?thesis
    by (simp add: map_below_take_drop)
next
  case False
  with assms have "\<exists>i\<in>set ids. length b \<le> i" by (auto intro: bexI [of _ "length b"])
  from run_items_out_of_range [OF this] False show ?thesis by simp
qed

lemma run_items_error:
  "run_items (react_kernel ap dev) ids b = Inl e \<Longrightarrow> e = OutOfBounds"
  by (induction ids arbitrary: b) (auto simp: react_kernel_def split: if_splits)

lemma run_items_length:
  "run_items (react_kernel ap dev) ids b = Inr b' \<Longrightarrow> length b' = length b"
  by (induction ids arbitrary: b) (auto simp: react_kernel_def split: if_splits)

lemma runs_each_item_once_jobs_run [simp]:
  "runs_each_item_once (q\<lparr>jobs_run := k\<rparr>) = runs_each_item_once q"
  by (simp add: runs_each_item_once_def)

lemma runs_each_item_once_in_order: "runs_each_item_once in_order_queue"
  by (simp add: runs_each_item_once_def in_order_queue_def atLeast0LessThan)

lemma jobs_run_in_order: "jobs_run in_order_queue = 0"
  by (simp add: in_order_queue_def)

lemma runs_each_item_once_reverse_order: "runs_each_item_once reverse_order_queue"
  by (simp add: runs_each_item_once_def reverse_order_queue_def atLeast0LessThan)

section \<open>The range of the job\<close>

text \<open>Up to \<open>2 ^ 31 - 1\<close> elements the narrowing to \<^verbatim>\<open>int\<close> loses nothing.\<close>

lemma job_range_small:
  assumes "length io < 2 ^ 31"
  shows "job_range io = length io"
proof -
  let ?n = "length io"
  from assms have n64: "?n < 2 ^ 64"
    by (rule less_trans) simp
  have a: "(ucast (word_of_nat ?n :: 64 word) :: 32 word) = word_of_nat ?n"
    using n64 by (simp add: unsigned_of_nat take_bit_nat_eq_self)
  have "signed_take_bit 31 (int ?n) = int ?n"
    using assms by (intro signed_take_bit_int_eq_self) simp_all
  then have c: "(scast (word_of_nat ?n :: 32 word) :: 64 word) = word_of_nat ?n"
    by (simp add: signed_of_nat)
  have d: "unat (word_of_nat ?n :: 64 word) = ?n"
    using n64 by (simp add: unsigned_of_nat take_bit_nat_eq_self)
  show ?thesis
    by (simp only: job_range_def size_t_of_int_def int_of_size_t_def vector_size_def a c d)
qed

text \<open>At \<open>2 ^ 32\<close> elements the low 32 bits of the size are all zero.\<close>

lemma job_range_wrap: "length io = 2 ^ 32 \<Longrightarrow> job_range io = 0"
  by (simp add: job_range_def size_t_of_int_def int_of_size_t_def vector_size_def)

text \<open>At \<open>2 ^ 31\<close> elements \<open>N\<close> is negative and widens to a range far beyond the vector.\<close>

lemma job_range_negative: "length io = 2 ^ 31 \<Longrightarrow> job_range io = 2 ^ 64 - 2 ^ 31"
  by (simp add: job_range_def size_t_of_int_def int_of_size_t_def vector_size_def)

section \<open>What \<open>react\<close> computes\<close>

lemma ReactionBase_react_eq:
  assumes "runs_each_item_once q"
  shows "ReactionBase_react g ap this q io =
     (if job_range io \<le> length io
      then Inr (this, q\<lparr>jobs_run := Suc (jobs_run q)\<rparr>,
                map (ap (g this)) (take (job_range io) io) @ drop (job_range io) io)
      else Inl OutOfBounds)"
proof -
  from assms have "distinct (item_order q (jobs_run q) (job_range io))"
    and "set (item_order q (jobs_run q) (job_range io)) = {..<job_range io}"
    by (simp_all add: runs_each_item_once_def)
  from run_items_permutation [OF this, of ap "g this" io] show ?thesis
    by (simp add: ReactionBase_react_def submit_parallel_for_def job_range_def)
qed

lemma ReactionBase_react_small:
  assumes "runs_each_item_once q" "length io < 2 ^ 31"
  shows "ReactionBase_react g ap this q io =
           Inr (this, q\<lparr>jobs_run := Suc (jobs_run q)\<rparr>, map (ap (g this)) io)"
  using assms by (simp add: ReactionBase_react_eq job_range_small)

lemma ReactionBase_react_result:
  assumes "ReactionBase_react g ap this q io = Inr (this', q', io')"
  shows "this' = this \<and> length io' = length io \<and> q' = q\<lparr>jobs_run := Suc (jobs_run q)\<rparr>"
  using assms
  by (auto simp: ReactionBase_react_def submit_parallel_for_def Let_def
      split: sum.splits dest: run_items_length)

lemma ReactionBase_react_error:
  "ReactionBase_react g ap this q io = Inl e \<Longrightarrow> e = OutOfBounds"
  by (auto simp: ReactionBase_react_def submit_parallel_for_def Let_def
      split: sum.splits dest: run_items_error)

lemma ReactionA_react_any:
  assumes "runs_each_item_once q" "length io < 2 ^ 31"
  shows "ReactionA_react r q io =
           Inr (r, q\<lparr>jobs_run := Suc (jobs_run q)\<rparr>,
                map (DeviceReactionA_apply (ReactionA_get_device_data r)) io)"
  using assms by (simp add: ReactionA_react_def ReactionBase_react_small)

lemma ReactionB_react_any:
  assumes "runs_each_item_once q" "length io < 2 ^ 31"
  shows "ReactionB_react r q io =
           Inr (r, q\<lparr>jobs_run := Suc (jobs_run q)\<rparr>,
                map (DeviceReactionB_apply (ReactionB_get_device_data r)) io)"
  using assms by (simp add: ReactionB_react_def ReactionBase_react_small)

lemma ReactionA_react_small:
  assumes "runs_each_item_once q" "length io < 2 ^ 31"
  shows "ReactionA_react (ReactionA_new a) q io =
           Inr (ReactionA_new a, q\<lparr>jobs_run := Suc (jobs_run q)\<rparr>, map (\<lambda>d. dmul d a) io)"
  using assms
  by (simp add: ReactionA_react_any ReactionA_get_device_data_def
      ReactionA_new_def DeviceReactionA_apply_def)

lemma ReactionB_react_small:
  assumes "runs_each_item_once q" "length io < 2 ^ 31"
  shows "ReactionB_react (ReactionB_new b) q io =
           Inr (ReactionB_new b, q\<lparr>jobs_run := Suc (jobs_run q)\<rparr>,
                map (\<lambda>d. dadd d (double_of_int (sint b))) io)"
  using assms
  by (simp add: ReactionB_react_any ReactionB_get_device_data_def
      ReactionB_new_def DeviceReactionB_apply_def)

lemma virtual_react_result:
  assumes "virtual_react obj q io = Inr (obj', q', io')"
  shows "obj' = obj \<and> length io' = length io"
proof (cases obj)
  case Plain_Reaction
  with assms show ?thesis by (simp add: Reaction_react_def)
next
  case (Is_ReactionA r)
  with assms show ?thesis
    by (auto simp: ReactionA_react_def split: sum.splits dest: ReactionBase_react_result)
next
  case (Is_ReactionB r)
  with assms show ?thesis
    by (auto simp: ReactionB_react_def split: sum.splits dest: ReactionBase_react_result)
qed

lemma virtual_react_queue:
  assumes "virtual_react obj q io = Inr (obj', q', io')"
  shows "runs_each_item_once q' = runs_each_item_once q"
proof (cases obj)
  case Plain_Reaction
  with assms show ?thesis by (simp add: Reaction_react_def)
next
  case (Is_ReactionA r)
  with assms show ?thesis
    by (auto simp: ReactionA_react_def split: sum.splits dest!: ReactionBase_react_result)
next
  case (Is_ReactionB r)
  with assms show ?thesis
    by (auto simp: ReactionB_react_def split: sum.splits dest!: ReactionBase_react_result)
qed

lemma virtual_react_error:
  "virtual_react obj q io = Inl e \<Longrightarrow> e = OutOfBounds"
  by (cases obj)
    (auto simp: Reaction_react_def ReactionA_react_def ReactionB_react_def
      split: sum.splits dest: ReactionBase_react_error)

lemma final_buffer_virtual_react:
  assumes "runs_each_item_once q"
  shows "final_buffer (virtual_react obj q io) =
     (case obj of
        Plain_Reaction \<Rightarrow> Some io
      | Is_ReactionA r \<Rightarrow>
          if job_range io \<le> length io
          then Some (map (DeviceReactionA_apply (ReactionA_get_device_data r)) (take (job_range io) io)
                       @ drop (job_range io) io)
          else None
      | Is_ReactionB r \<Rightarrow>
          if job_range io \<le> length io
          then Some (map (DeviceReactionB_apply (ReactionB_get_device_data r)) (take (job_range io) io)
                       @ drop (job_range io) io)
          else None)"
  using assms
  by (cases obj)
    (simp_all add: Reaction_react_def ReactionA_react_def ReactionB_react_def ReactionBase_react_eq)

lemma make_reaction_eq: "make_reaction new args = Some (new args)"
  by (cases "new args")
    (simp_all add: make_reaction_def make_shared_def dynamic_pointer_cast_Reaction_def
      derives_from.simps)

lemma length_iota [simp]: "length (iota n) = n"
  by (simp add: iota_def)

section \<open>The demonstration's numbers\<close>

text \<open>The products \<open>i * 0.1\<close> for \<open>i = 0, ..., 31\<close>, each rounded once: eleven of them are
  not the double that the literal for \<open>i / 10\<close> denotes but the next one above it.\<close>

lemma iota_32_times_tenth:
  "map (\<lambda>d. dmul d (double_literal 1 10)) (iota 32)
     = spec_tenths_except 0 32 [3, 6, 7, 12, 14, 17, 19, 23, 24, 28, 29]"
  by code_simp

text \<open>Adding 2 rounds again; four sums end one place above the literal for \<open>2 + i / 10\<close>.\<close>

lemma iota_32_times_tenth_plus_2:
  "map (\<lambda>d. dadd d (double_of_int 2))
       (spec_tenths_except 0 32 [3, 6, 7, 12, 14, 17, 19, 23, 24, 28, 29])
     = spec_tenths_except 20 32 [14, 19, 23, 28]"
  by code_simp

lemma three_tenths: "dmul (double_of_int 3) (double_literal 1 10) \<noteq> double_literal 3 10"
  by code_simp

section \<open>Properties\<close>

subsection \<open>Vectors of fewer than \<open>2 ^ 31\<close> elements\<close>

text \<open>On a vector of fewer than \<open>2 ^ 31\<close> elements, and with an executor that keeps its
  contract, \<open>react\<close> of the multiply reaction returns, leaves the reaction as it was, and
  leaves a vector of the same length whose element \<open>i\<close> is \<open>S[i] * a\<close>.\<close>

theorem ReactionA_react_below_2_31:
  assumes "runs_each_item_once q" "length S < 2 ^ 31"
  shows "\<exists>q' S'. ReactionA_react (ReactionA_new a) q S = Inr (ReactionA_new a, q', S')
           \<and> length S' = length S \<and> (\<forall>i<length S. S' ! i = dmul (S ! i) a)"
  using assms by (simp add: ReactionA_react_small)

theorem ReactionA_react_below_2_31_witness:
  "runs_each_item_once reverse_order_queue
   \<and> length [double_of_int 1, double_of_int 3] < 2 ^ 31
   \<and> (\<exists>q' S'. ReactionA_react (ReactionA_new (double_of_int 2)) reverse_order_queue
                  [double_of_int 1, double_of_int 3]
                = Inr (ReactionA_new (double_of_int 2), q', S')
              \<and> length S' = 2
              \<and> S' ! 0 = dmul (double_of_int 1) (double_of_int 2)
              \<and> S' ! 1 = dmul (double_of_int 3) (double_of_int 2))"
proof -
  have len: "length [double_of_int 1, double_of_int 3] < 2 ^ 31"
    by simp
  from ReactionA_react_below_2_31 [OF runs_each_item_once_reverse_order len, of "double_of_int 2"]
  obtain q' S' where
    "ReactionA_react (ReactionA_new (double_of_int 2)) reverse_order_queue
       [double_of_int 1, double_of_int 3] = Inr (ReactionA_new (double_of_int 2), q', S')"
    "length S' = 2" "\<forall>i<2. S' ! i = dmul ([double_of_int 1, double_of_int 3] ! i) (double_of_int 2)"
    by auto
  then have "ReactionA_react (ReactionA_new (double_of_int 2)) reverse_order_queue
       [double_of_int 1, double_of_int 3] = Inr (ReactionA_new (double_of_int 2), q', S')
     \<and> length S' = 2
     \<and> S' ! 0 = dmul (double_of_int 1) (double_of_int 2)
     \<and> S' ! 1 = dmul (double_of_int 3) (double_of_int 2)"
    by auto
  with runs_each_item_once_reverse_order len show ?thesis by blast
qed

text \<open>Under the same conditions \<open>react\<close> of the add reaction leaves a vector of the same
  length whose element \<open>i\<close> is \<open>S[i] + b\<close>, the \<^verbatim>\<open>int\<close> \<open>b\<close> converted to \<^verbatim>\<open>double\<close>.\<close>

theorem ReactionB_react_below_2_31:
  assumes "runs_each_item_once q" "length S < 2 ^ 31"
  shows "\<exists>q' S'. ReactionB_react (ReactionB_new b) q S = Inr (ReactionB_new b, q', S')
           \<and> length S' = length S
           \<and> (\<forall>i<length S. S' ! i = dadd (S ! i) (double_of_int (sint b)))"
  using assms by (simp add: ReactionB_react_small)

theorem ReactionB_react_below_2_31_witness:
  "runs_each_item_once reverse_order_queue
   \<and> length [double_of_int 1, double_of_int 3] < 2 ^ 31
   \<and> (\<exists>q' S'. ReactionB_react (ReactionB_new 5) reverse_order_queue
                  [double_of_int 1, double_of_int 3]
                = Inr (ReactionB_new 5, q', S')
              \<and> length S' = 2
              \<and> S' ! 0 = dadd (double_of_int 1) (double_of_int 5)
              \<and> S' ! 1 = dadd (double_of_int 3) (double_of_int 5))"
proof -
  have len: "length [double_of_int 1, double_of_int 3] < 2 ^ 31"
    by simp
  from ReactionB_react_below_2_31 [OF runs_each_item_once_reverse_order len, of 5]
  obtain q' S' where
    "ReactionB_react (ReactionB_new 5) reverse_order_queue
       [double_of_int 1, double_of_int 3] = Inr (ReactionB_new 5, q', S')"
    "length S' = 2" "\<forall>i<2. S' ! i = dadd ([double_of_int 1, double_of_int 3] ! i) (double_of_int 5)"
    by auto
  then have "ReactionB_react (ReactionB_new 5) reverse_order_queue
       [double_of_int 1, double_of_int 3] = Inr (ReactionB_new 5, q', S')
     \<and> length S' = 2
     \<and> S' ! 0 = dadd (double_of_int 1) (double_of_int 5)
     \<and> S' ! 1 = dadd (double_of_int 3) (double_of_int 5)"
    by auto
  with runs_each_item_once_reverse_order len show ?thesis by blast
qed

text \<open>Under the same conditions the multiply reaction followed by the add reaction leaves,
  at every index, \<open>(S[i] * a) + b\<close>: the product is rounded first, then the sum.\<close>

theorem multiply_then_add_below_2_31:
  assumes "runs_each_item_once q" "length S < 2 ^ 31"
  shows "\<exists>q1 q2 d1.
           ReactionA_react (ReactionA_new a) q S = Inr (ReactionA_new a, q1, d1)
         \<and> ReactionB_react (ReactionB_new b) q1 d1
             = Inr (ReactionB_new b, q2, map (\<lambda>x. dadd (dmul x a) (double_of_int (sint b))) S)"
  using assms by (simp add: ReactionA_react_small ReactionB_react_small)

theorem multiply_then_add_below_2_31_witness:
  "runs_each_item_once reverse_order_queue
   \<and> length [double_of_int 1, double_of_int 3] < 2 ^ 31
   \<and> (\<exists>q1 q2 d1.
         ReactionA_react (ReactionA_new (double_of_int 2)) reverse_order_queue
           [double_of_int 1, double_of_int 3]
           = Inr (ReactionA_new (double_of_int 2), q1, d1)
       \<and> ReactionB_react (ReactionB_new 5) q1 d1
           = Inr (ReactionB_new 5, q2,
                  [dadd (dmul (double_of_int 1) (double_of_int 2)) (double_of_int 5),
                   dadd (dmul (double_of_int 3) (double_of_int 2)) (double_of_int 5)]))"
proof -
  have len: "length [double_of_int 1, double_of_int 3] < 2 ^ 31"
    by simp
  from multiply_then_add_below_2_31
    [OF runs_each_item_once_reverse_order len, of "double_of_int 2" 5]
  have "\<exists>q1 q2 d1.
         ReactionA_react (ReactionA_new (double_of_int 2)) reverse_order_queue
           [double_of_int 1, double_of_int 3]
           = Inr (ReactionA_new (double_of_int 2), q1, d1)
       \<and> ReactionB_react (ReactionB_new 5) q1 d1
           = Inr (ReactionB_new 5, q2,
                  [dadd (dmul (double_of_int 1) (double_of_int 2)) (double_of_int 5),
                   dadd (dmul (double_of_int 3) (double_of_int 2)) (double_of_int 5)])"
    by simp
  with runs_each_item_once_reverse_order len show ?thesis by blast
qed

text \<open>A vector of \<open>2 ^ 31\<close> elements makes \<open>N\<close> negative: the range then reaches beyond the
  buffer and a work-item indexes the accessor out of bounds.\<close>

theorem ReactionA_react_out_of_bounds:
  "ReactionA_react (ReactionA_new (double_of_int 2)) in_order_queue
       (replicate (2 ^ 31) (double_of_int 1)) = Inl OutOfBounds"
proof -
  have "job_range (replicate (2 ^ 31) (double_of_int 1)) = 2 ^ 64 - 2 ^ 31"
    by (rule job_range_negative) simp
  then show ?thesis
    by (simp add: ReactionA_react_def ReactionBase_react_eq [OF runs_each_item_once_in_order])
qed

subsection \<open>The claims of the specification\<close>

text \<open>C1. For every finite sequence \<open>S\<close> and every factor \<open>a\<close>, \<open>react\<close> of the multiply
  reaction yields a sequence of the same length with \<open>S[i] * a\<close> at every index \<open>i\<close>.
  The code does not do this on a vector of \<open>2 ^ 32\<close> elements: \<^verbatim>\<open>const int N = io.size()\<close>
  is then \<open>0\<close>, no work-item runs, and every element keeps its value (here \<open>1\<close>, where
  \<open>1 * 2\<close> is asked for). The buffer in the next line of the source is built from
  \<^verbatim>\<open>io.size()\<close> itself and spans the whole vector.\<close>

theorem ReactionA_react_skips_long_vector:
  "ReactionA_react (ReactionA_new (double_of_int 2)) in_order_queue
       (replicate (2 ^ 32) (double_of_int 1))
     = Inr (ReactionA_new (double_of_int 2), in_order_queue\<lparr>jobs_run := 1\<rparr>,
            replicate (2 ^ 32) (double_of_int 1))
   \<and> replicate (2 ^ 32) (double_of_int 1) ! 0 = double_of_int 1
   \<and> dmul (double_of_int 1) (double_of_int 2) \<noteq> double_of_int 1"
proof -
  have "job_range (replicate (2 ^ 32) (double_of_int 1)) = 0"
    by (rule job_range_wrap) simp
  then have "ReactionA_react (ReactionA_new (double_of_int 2)) in_order_queue
       (replicate (2 ^ 32) (double_of_int 1))
     = Inr (ReactionA_new (double_of_int 2), in_order_queue\<lparr>jobs_run := 1\<rparr>,
            replicate (2 ^ 32) (double_of_int 1))"
    by (simp add: ReactionA_react_def ReactionBase_react_eq [OF runs_each_item_once_in_order]
        jobs_run_in_order)
  moreover have "dmul (double_of_int 1) (double_of_int 2) \<noteq> double_of_int 1"
    by code_simp
  ultimately show ?thesis by simp
qed

text \<open>C2. For every finite sequence \<open>S\<close> and every integer offset \<open>b\<close>, \<open>react\<close> of the add
  reaction yields a sequence of the same length with \<open>S[i] + b\<close> at every index \<open>i\<close>.
  The code does not do this on a vector of \<open>2 ^ 32\<close> elements, for the same narrowing of
  the size to \<^verbatim>\<open>int\<close>: every element keeps its value \<open>1\<close>, where \<open>1 + 5\<close> is asked for.\<close>

theorem ReactionB_react_skips_long_vector:
  "ReactionB_react (ReactionB_new 5) in_order_queue (replicate (2 ^ 32) (double_of_int 1))
     = Inr (ReactionB_new 5, in_order_queue\<lparr>jobs_run := 1\<rparr>,
            replicate (2 ^ 32) (double_of_int 1))
   \<and> replicate (2 ^ 32) (double_of_int 1) ! 0 = double_of_int 1
   \<and> dadd (double_of_int 1) (double_of_int (sint (5 :: c_int))) \<noteq> double_of_int 1"
proof -
  have "job_range (replicate (2 ^ 32) (double_of_int 1)) = 0"
    by (rule job_range_wrap) simp
  then have "ReactionB_react (ReactionB_new 5) in_order_queue (replicate (2 ^ 32) (double_of_int 1))
     = Inr (ReactionB_new 5, in_order_queue\<lparr>jobs_run := 1\<rparr>,
            replicate (2 ^ 32) (double_of_int 1))"
    by (simp add: ReactionB_react_def ReactionBase_react_eq [OF runs_each_item_once_in_order]
        jobs_run_in_order)
  moreover have "dadd (double_of_int 1) (double_of_int 5) \<noteq> double_of_int 1"
    by code_simp
  ultimately show ?thesis by simp
qed

text \<open>C3. Calling \<open>react\<close> through the handle that \<open>make_reaction\<close> returns leaves the same
  vector as calling \<open>react\<close> on the concrete reaction, for the multiply reaction with any
  factor and the add reaction with any offset, on every vector and queue; and in the
  driver, on \<open>[0, 1, ..., 31]\<close> with multiply(0.1) and add(2), the two vectors printed after
  the calls through the handles are the two printed after the direct calls.\<close>

theorem handle_react_same_as_direct:
  assumes "runs_each_item_once q"
  shows "final_buffer (ptr_react (make_reaction (\<lambda>x. Is_ReactionA (ReactionA_new x)) a) q0 io)
           = final_buffer (ReactionA_react (ReactionA_new a) q0 io)
       \<and> final_buffer (ptr_react (make_reaction (\<lambda>x. Is_ReactionB (ReactionB_new x)) b) q0 io)
           = final_buffer (ReactionB_react (ReactionB_new b) q0 io)
       \<and> (\<exists>d1 d2. main q = Inr [iota 32, d1, d2, d1, d2])"
proof -
  have a: "final_buffer (ptr_react (make_reaction (\<lambda>x. Is_ReactionA (ReactionA_new x)) a) q0 io)
           = final_buffer (ReactionA_react (ReactionA_new a) q0 io)"
    by (auto simp: make_reaction_eq ptr_react_def split: sum.splits)
  have b: "final_buffer (ptr_react (make_reaction (\<lambda>x. Is_ReactionB (ReactionB_new x)) b) q0 io)
           = final_buffer (ReactionB_react (ReactionB_new b) q0 io)"
    by (auto simp: make_reaction_eq ptr_react_def split: sum.splits)
  have c: "\<exists>d1 d2. main q = Inr [iota 32, d1, d2, d1, d2]"
    using assms
    by (simp add: main_def Let_def make_reaction_eq ptr_react_def
        ReactionA_react_small ReactionB_react_small)
  from a b c show ?thesis by simp
qed

theorem handle_react_same_as_direct_witness:
  "runs_each_item_once reverse_order_queue
   \<and> final_buffer (ptr_react (make_reaction (\<lambda>x. Is_ReactionA (ReactionA_new x)) (double_literal 1 10))
         in_order_queue (iota 32))
       = final_buffer (ReactionA_react (ReactionA_new (double_literal 1 10)) in_order_queue (iota 32))
   \<and> final_buffer (ptr_react (make_reaction (\<lambda>x. Is_ReactionB (ReactionB_new x)) 2)
         in_order_queue (iota 32))
       = final_buffer (ReactionB_react (ReactionB_new 2) in_order_queue (iota 32))
   \<and> (\<exists>d1 d2. main reverse_order_queue = Inr [iota 32, d1, d2, d1, d2])"
  using handle_react_same_as_direct
    [OF runs_each_item_once_reverse_order, of "double_literal 1 10" in_order_queue "iota 32" 2]
  by (simp add: runs_each_item_once_reverse_order)

text \<open>C4. For every finite sequence \<open>S\<close>, factor \<open>a\<close> and offset \<open>b\<close>, the multiply reaction
  followed by the add reaction yields \<open>(S[i] * a) + b\<close> at every index \<open>i\<close>. The code does
  not do this on a vector of \<open>2 ^ 32\<close> elements, for the same narrowing of the size to
  \<^verbatim>\<open>int\<close> as in C1: neither call runs a work-item and every element keeps its value \<open>1\<close>,
  where \<open>(1 * 2) + 5\<close> is asked for.\<close>

theorem multiply_then_add_skips_long_vector:
  "(case ReactionA_react (ReactionA_new (double_of_int 2)) in_order_queue
            (replicate (2 ^ 32) (double_of_int 1)) of
      Inl e \<Rightarrow> None
    | Inr (a', q1, d1) \<Rightarrow> final_buffer (ReactionB_react (ReactionB_new 5) q1 d1))
     = Some (replicate (2 ^ 32) (double_of_int 1))
   \<and> replicate (2 ^ 32) (double_of_int 1) ! 0 = double_of_int 1
   \<and> dadd (dmul (double_of_int 1) (double_of_int 2)) (double_of_int (sint (5 :: c_int)))
       \<noteq> double_of_int 1"
proof -
  have "job_range (replicate (2 ^ 32) (double_of_int 1)) = 0"
    by (rule job_range_wrap) simp
  then have "(case ReactionA_react (ReactionA_new (double_of_int 2)) in_order_queue
            (replicate (2 ^ 32) (double_of_int 1)) of
      Inl e \<Rightarrow> None
    | Inr (a', q1, d1) \<Rightarrow> final_buffer (ReactionB_react (ReactionB_new 5) q1 d1))
     = Some (replicate (2 ^ 32) (double_of_int 1))"
    by (simp add: ReactionA_react_def ReactionB_react_def ReactionBase_react_eq
        runs_each_item_once_in_order)
  moreover have "dadd (dmul (double_of_int 1) (double_of_int 2)) (double_of_int 5) \<noteq> double_of_int 1"
    by code_simp
  ultimately show ?thesis by simp
qed

text \<open>C5. For every reaction (a plain \<open>Reaction\<close>, a multiply reaction, an add reaction),
  \<open>react\<close> on the empty vector returns without error, leaves the reaction as it was and
  leaves the vector empty.\<close>

theorem react_on_empty_vector:
  assumes "runs_each_item_once q"
  shows "\<exists>q'. virtual_react obj q [] = Inr (obj, q', [])"
  using assms
  by (cases obj) (simp_all add: Reaction_react_def ReactionA_react_any ReactionB_react_any)

theorem react_on_empty_vector_witness:
  "runs_each_item_once reverse_order_queue
   \<and> (\<exists>q'. virtual_react (Is_ReactionB (ReactionB_new 2)) reverse_order_queue []
              = Inr (Is_ReactionB (ReactionB_new 2), q', []))"
  using react_on_empty_vector [OF runs_each_item_once_reverse_order, of "Is_ReactionB (ReactionB_new 2)"]
  by (simp add: runs_each_item_once_reverse_order)

text \<open>C6. On the vector \<open>[0, 1, ..., 31]\<close> the multiply reaction with factor 0.1 yields
  exactly \<open>[0.0, 0.1, ..., 3.1]\<close>, and the add reaction with offset 2 then yields exactly
  \<open>[2.0, 2.1, ..., 5.1]\<close>. As stated this is false: at index 3 the product is not the
  double 0.3 (it is 0.30000000000000004).\<close>

theorem multiples_of_tenth_not_exact:
  "final_buffer (ReactionA_react (ReactionA_new (double_literal 1 10)) in_order_queue (iota 32))
     \<noteq> Some (spec_tenths 0 32)"
proof -
  have "final_buffer (ReactionA_react (ReactionA_new (double_literal 1 10)) in_order_queue (iota 32))
      = Some (map (\<lambda>d. dmul d (double_literal 1 10)) (iota 32))"
    by (simp add: ReactionA_react_small runs_each_item_once_in_order)
  moreover have "map (\<lambda>d. dmul d (double_literal 1 10)) (iota 32) ! 3
      = dmul (double_of_int 3) (double_literal 1 10)"
    by (simp add: iota_def)
  moreover have "spec_tenths 0 32 ! 3 = double_literal 3 10"
    by (simp add: spec_tenths_def)
  ultimately have "final_buffer (ReactionA_react (ReactionA_new (double_literal 1 10)) in_order_queue (iota 32))
      = Some (spec_tenths 0 32) \<Longrightarrow> dmul (double_of_int 3) (double_literal 1 10) = double_literal 3 10"
    by (simp only: option.inject)
  with three_tenths show ?thesis
    by blast
qed

text \<open>C6, amended. On the vector \<open>[0, 1, ..., 31]\<close> the multiply reaction with factor 0.1
  yields the doubles \<open>0.0, 0.1, ..., 3.1\<close> except at the indices 3, 6, 7, 12, 14, 17, 19, 23,
  24, 28 and 29, where it yields the next double above; the add reaction with offset 2
  then yields the doubles \<open>2.0, 2.1, ..., 5.1\<close> except at the indices 14, 19, 23 and 28,
  where it yields the next double above.\<close>

theorem multiples_of_tenth_within_one_place:
  assumes "runs_each_item_once q"
  shows "\<exists>q1 q2.
     ReactionA_react (ReactionA_new (double_literal 1 10)) q (iota 32)
       = Inr (ReactionA_new (double_literal 1 10), q1,
              spec_tenths_except 0 32 [3, 6, 7, 12, 14, 17, 19, 23, 24, 28, 29])
   \<and> ReactionB_react (ReactionB_new 2) q1
         (spec_tenths_except 0 32 [3, 6, 7, 12, 14, 17, 19, 23, 24, 28, 29])
       = Inr (ReactionB_new 2, q2, spec_tenths_except 20 32 [14, 19, 23, 28])"
proof -
  have len: "length (spec_tenths_except 0 32 [3, 6, 7, 12, 14, 17, 19, 23, 24, 28, 29]) < 2 ^ 31"
    by (simp add: spec_tenths_except_def)
  show ?thesis
    using assms len
    by (simp add: ReactionA_react_small ReactionB_react_small iota_32_times_tenth
        iota_32_times_tenth_plus_2)
qed

theorem multiples_of_tenth_within_one_place_witness:
  "runs_each_item_once reverse_order_queue
   \<and> (\<exists>q1 q2.
     ReactionA_react (ReactionA_new (double_literal 1 10)) reverse_order_queue (iota 32)
       = Inr (ReactionA_new (double_literal 1 10), q1,
              spec_tenths_except 0 32 [3, 6, 7, 12, 14, 17, 19, 23, 24, 28, 29])
   \<and> ReactionB_react (ReactionB_new 2) q1
         (spec_tenths_except 0 32 [3, 6, 7, 12, 14, 17, 19, 23, 24, 28, 29])
       = Inr (ReactionB_new 2, q2, spec_tenths_except 20 32 [14, 19, 23, 28]))"
  using multiples_of_tenth_within_one_place [OF runs_each_item_once_reverse_order]
    runs_each_item_once_reverse_order
  by blast

text \<open>C7. For every reaction and every vector, a call of \<open>react\<close> that returns leaves the
  vector's length and the reaction's parameters unchanged, and a later call depends on
  the earlier one only through the vector: run on any other executor on the vector that
  the first call left, the second reaction leaves the same vector.\<close>

theorem react_keeps_length_and_parameters:
  assumes "runs_each_item_once q" "runs_each_item_once q_other"
    and "virtual_react r1 q io = Inr (r1', q1, io1)"
    and "virtual_react r2 q1 io1 = Inr (r2', q2, io2)"
  shows "r1' = r1 \<and> length io1 = length io
       \<and> r2' = r2 \<and> length io2 = length io1
       \<and> final_buffer (virtual_react r2 q_other io1) = Some io2"
proof -
  from assms(1,3) have "runs_each_item_once q1"
    by (simp add: virtual_react_queue)
  with assms(2) have "final_buffer (virtual_react r2 q_other io1) = final_buffer (virtual_react r2 q1 io1)"
    by (simp add: final_buffer_virtual_react)
  with assms(3,4) show ?thesis
    by (auto dest: virtual_react_result)
qed

theorem react_keeps_length_and_parameters_witness:
  "runs_each_item_once in_order_queue \<and> runs_each_item_once reverse_order_queue
   \<and> virtual_react (Is_ReactionA (ReactionA_new (double_of_int 2))) in_order_queue
         [double_of_int 1, double_of_int 3]
       = Inr (Is_ReactionA (ReactionA_new (double_of_int 2)), in_order_queue\<lparr>jobs_run := 1\<rparr>,
              [dmul (double_of_int 1) (double_of_int 2), dmul (double_of_int 3) (double_of_int 2)])
   \<and> virtual_react (Is_ReactionB (ReactionB_new 5)) (in_order_queue\<lparr>jobs_run := 1\<rparr>)
         [dmul (double_of_int 1) (double_of_int 2), dmul (double_of_int 3) (double_of_int 2)]
       = Inr (Is_ReactionB (ReactionB_new 5), in_order_queue\<lparr>jobs_run := 2\<rparr>,
              [dadd (dmul (double_of_int 1) (double_of_int 2)) (double_of_int 5),
               dadd (dmul (double_of_int 3) (double_of_int 2)) (double_of_int 5)])
   \<and> length [dmul (double_of_int 1) (double_of_int 2), dmul (double_of_int 3) (double_of_int 2)]
       = length [double_of_int 1, double_of_int 3]
   \<and> final_buffer (virtual_react (Is_ReactionB (ReactionB_new 5)) reverse_order_queue
         [dmul (double_of_int 1) (double_of_int 2), dmul (double_of_int 3) (double_of_int 2)])
       = Some [dadd (dmul (double_of_int 1) (double_of_int 2)) (double_of_int 5),
               dadd (dmul (double_of_int 3) (double_of_int 2)) (double_of_int 5)]"
proof -
  let ?io = "[double_of_int 1, double_of_int 3]"
  let ?io1 = "[dmul (double_of_int 1) (double_of_int 2), dmul (double_of_int 3) (double_of_int 2)]"
  let ?io2 = "[dadd (dmul (double_of_int 1) (double_of_int 2)) (double_of_int 5),
               dadd (dmul (double_of_int 3) (double_of_int 2)) (double_of_int 5)]"
  have h3: "virtual_react (Is_ReactionA (ReactionA_new (double_of_int 2))) in_order_queue ?io
       = Inr (Is_ReactionA (ReactionA_new (double_of_int 2)), in_order_queue\<lparr>jobs_run := 1\<rparr>, ?io1)"
    by (simp add: ReactionA_react_small runs_each_item_once_in_order jobs_run_in_order)
  have h4: "virtual_react (Is_ReactionB (ReactionB_new 5)) (in_order_queue\<lparr>jobs_run := 1\<rparr>) ?io1
       = Inr (Is_ReactionB (ReactionB_new 5), in_order_queue\<lparr>jobs_run := 2\<rparr>, ?io2)"
    by (simp add: ReactionB_react_small runs_each_item_once_in_order)
  from react_keeps_length_and_parameters
    [OF runs_each_item_once_in_order runs_each_item_once_reverse_order h3 h4]
  show ?thesis
    using h3 h4 runs_each_item_once_in_order runs_each_item_once_reverse_order by blast
qed

text \<open>C8. For every reaction built through \<open>make_reaction\<close>, the construction of the
  handle does not fail: the dynamic cast to \<open>Reaction\<close> succeeds, the handle that comes
  back is not null and refers to the object built, and \<open>react\<close> can be called on it (the
  call is never a call through a null handle).\<close>

theorem make_reaction_never_null:
  "dynamic_pointer_cast_Reaction (make_shared new args) = Some (new args)
   \<and> make_reaction new args = Some (new args)
   \<and> ptr_react (make_reaction new args) q io \<noteq> Inl NullHandle"
proof -
  have "ptr_react (Some (new args)) q io \<noteq> Inl NullHandle"
    by (auto simp: ptr_react_def split: sum.splits dest: virtual_react_error)
  then show ?thesis
    using make_reaction_eq [of new args] by (simp add: make_reaction_def)
qed

text \<open>C9. For a fixed vector and a fixed reaction, any two calls of \<open>react\<close> leave the
  same vector, whatever the order in which the two executors run the work-items (which
  covers any number of parallel workers); and on a vector of fewer than \<open>2 ^ 31\<close> elements
  the call does leave a vector.\<close>

theorem react_result_independent_of_schedule:
  assumes "runs_each_item_once q1" "runs_each_item_once q2"
  shows "final_buffer (virtual_react obj q1 io) = final_buffer (virtual_react obj q2 io)
       \<and> (length io < 2 ^ 31 \<longrightarrow> final_buffer (virtual_react obj q1 io) \<noteq> None)"
  using assms
  by (simp add: final_buffer_virtual_react job_range_small split: Reaction.split)

theorem react_result_independent_of_schedule_witness:
  "runs_each_item_once in_order_queue \<and> runs_each_item_once reverse_order_queue
   \<and> length [double_of_int 1, double_of_int 3] < 2 ^ 31
   \<and> final_buffer (virtual_react (Is_ReactionA (ReactionA_new (double_of_int 2))) in_order_queue
         [double_of_int 1, double_of_int 3])
     = final_buffer (virtual_react (Is_ReactionA (ReactionA_new (double_of_int 2))) reverse_order_queue
         [double_of_int 1, double_of_int 3])
   \<and> final_buffer (virtual_react (Is_ReactionA (ReactionA_new (double_of_int 2))) in_order_queue
         [double_of_int 1, double_of_int 3]) \<noteq> None"
proof -
  have len: "length [double_of_int 1, double_of_int 3] < 2 ^ 31"
    by simp
  from react_result_independent_of_schedule
    [OF runs_each_item_once_in_order runs_each_item_once_reverse_order,
      of "Is_ReactionA (ReactionA_new (double_of_int 2))" "[double_of_int 1, double_of_int 3]"]
  show ?thesis
    using len runs_each_item_once_in_order runs_each_item_once_reverse_order by blast
qed

text \<open>C10. The base type's \<open>react\<close> has an empty body: called on a plain \<open>Reaction\<close>, directly
  or through the virtual call, it submits no job to the queue (the queue is returned as it
  was) and returns the vector unchanged.\<close>

theorem plain_reaction_react_is_noop:
  "Reaction_react Plain_Reaction q io = Inr (Plain_Reaction, q, io)
   \<and> virtual_react Plain_Reaction q io = Inr (Plain_Reaction, q, io)"
  by (simp add: Reaction_react_def)

end
